theory Spec2Isabelle
  imports Complex_Main
begin

section \<open>Batch gradient descent for least squares (notebook 6, Gradient Descent)\<close>

text \<open>
  The program is the code cell ``programming gradient descent'' of
  \<^verbatim>\<open>Lectures/Supervised Learning/6. Gradient Descent - Complete.ipynb\<close>:
  \<^verbatim>\<open>
  for i in range(max_iter):
      beta_star_new = beta_star - alpha*(2/len(X))*X.transpose().dot(X.dot(beta_star) - y.reshape(-1,1))
      if np.sum(np.power(beta_star_new - beta_star,2))/2 < tol:
          beta_hat = beta_star_new
          break
      else:
          beta_star = beta_star_new
      if i + 1 == max_iter:
          print("Maximum iterations reached before convergence.")
  print("Went through", i, "iterations")
  print("beta_hat =")
  print(beta_hat)
  \<close>
  The cell binds \<open>alpha = .05\<close>, \<open>tol = 0.000000001\<close>, \<open>max_iter = 50000\<close> and a random
  \<open>beta_star\<close> of shape \<open>(2,1)\<close> before the loop; \<open>X\<close> and \<open>y\<close> come from an earlier cell.
  Here these six are the inputs of the model.

  The code computes in IEEE doubles, through Python and numpy. The model does not fix that
  arithmetic: every operation the cell applies to a float is a field of the record
  \<open>arith\<close>, passed to the model as \<open>ar\<close>, and the type \<open>'a\<close> of the numbers is arbitrary
  (for the doubles it has the infinities and NaN too). A theorem stated for every \<open>ar\<close>
  holds for whatever the doubles do, rounding, overflow and NaN included. The instance
  \<open>exact\<close> computes with real numbers; it is used to run the cell on concrete inputs,
  chosen so that the doubles take the same branches there.
\<close>

subsection \<open>Arrays\<close>

text \<open>
  A column array of shape \<open>(k,1)\<close>, and the one-dimensional \<open>y\<close> of shape \<open>(k,)\<close> (which
  the code only uses through \<open>y.reshape(-1,1)\<close>), is the list of its \<open>k\<close> entries.
  A two-dimensional array of shape \<open>(n,p)\<close> is the list of its \<open>n\<close> rows together with
  \<open>p\<close>, which the rows cannot tell when \<open>n = 0\<close>.
\<close>

record 'a matrix =
  ncols :: nat
  rows :: "'a list list"

text \<open>Every row of an array has the array's number of columns.\<close>

definition wf_matrix :: "'a matrix \<Rightarrow> bool" where
  "wf_matrix A = list_all (\<lambda>r. length r = ncols A) (rows A)"

text \<open>\<open>len(X)\<close> of a two-dimensional array is its number of rows.\<close>

definition len :: "'a matrix \<Rightarrow> nat" where
  "len A = length (rows A)"

datatype py_error = ZeroDivisionError | ValueError | NameError string

definition and_then :: "py_error + 'b \<Rightarrow> ('b \<Rightarrow> py_error + 'c) \<Rightarrow> py_error + 'c" where
  "and_then r f = (case r of Inl e \<Rightarrow> Inl e | Inr v \<Rightarrow> f v)"

text \<open>\<open>X.transpose()\<close>: shape \<open>(n,p)\<close> becomes \<open>(p,n)\<close>.\<close>

definition transpose_m :: "'a matrix \<Rightarrow> 'a matrix" where
  "transpose_m A =
     \<lparr>ncols = length (rows A),
      rows = map (\<lambda>j. map (\<lambda>r. r ! j) (rows A)) [0..<ncols A]\<rparr>"

subsection \<open>The arithmetic\<close>

text \<open>
  The operations on floats that the cell uses, one field each:
  \<^item> \<open>f_int_div a b\<close>: Python's \<open>a / b\<close> of two integers, as in \<open>2/len(X)\<close>;
  \<^item> \<open>f_mul\<close>, \<open>f_sub\<close>: \<open>*\<close> and \<open>-\<close> of two floats (numpy applies them entry by entry);
  \<^item> \<open>f_dot t A k v\<close>: entry \<open>k\<close> of \<open>A.dot(v)\<close>. How numpy orders and fuses the additions
    and multiplications of an inner product is not fixed by the source and may depend on
    the shape of \<open>A\<close>, on the row and on whether \<open>A\<close> is the transposed view of an array
    (\<open>t\<close> tells), so the entry is a function of all of these;
  \<^item> \<open>f_power x 2\<close>: an entry of \<open>np.power(..., 2)\<close>;
  \<^item> \<open>f_sum\<close>: \<open>np.sum\<close> of the entries of an array;
  \<^item> \<open>f_div_int x 2\<close>: the float \<open>x\<close> divided by the integer \<open>2\<close>;
  \<^item> \<open>f_less\<close>: \<open><\<close> of two floats (false whenever one of them is NaN).
\<close>

record 'a arith =
  f_int_div :: "int \<Rightarrow> int \<Rightarrow> 'a"
  f_mul :: "'a \<Rightarrow> 'a \<Rightarrow> 'a"
  f_sub :: "'a \<Rightarrow> 'a \<Rightarrow> 'a"
  f_dot :: "bool \<Rightarrow> 'a matrix \<Rightarrow> nat \<Rightarrow> 'a list \<Rightarrow> 'a"
  f_power :: "'a \<Rightarrow> int \<Rightarrow> 'a"
  f_sum :: "'a list \<Rightarrow> 'a"
  f_div_int :: "'a \<Rightarrow> int \<Rightarrow> 'a"
  f_less :: "'a \<Rightarrow> 'a \<Rightarrow> bool"

text \<open>The inner product of two lists of real numbers.\<close>

definition row_dot :: "real list \<Rightarrow> real list \<Rightarrow> real" where
  "row_dot r v = sum_list (map2 (*) r v)"

text \<open>Exact arithmetic: the same operations on real numbers, without rounding.\<close>

definition exact :: "real arith" where
  "exact =
     \<lparr>f_int_div = (\<lambda>a b. real_of_int a / real_of_int b),
      f_mul = (*),
      f_sub = (-),
      f_dot = (\<lambda>t A k v. row_dot (rows A ! k) v),
      f_power = (\<lambda>x n. x ^ nat n),
      f_sum = sum_list,
      f_div_int = (\<lambda>x n. x / real_of_int n),
      f_less = (<)\<rparr>"

subsection \<open>The numpy operations of the cell\<close>

text \<open>The entries of \<open>A.dot(v)\<close>, one for each row of \<open>A\<close>.\<close>

definition matvec :: "'a arith \<Rightarrow> bool \<Rightarrow> 'a matrix \<Rightarrow> 'a list \<Rightarrow> 'a list" where
  "matvec ar t A v = map (\<lambda>k. f_dot ar t A k v) [0..<len A]"

text \<open>
  \<open>A.dot(v)\<close> for \<open>A\<close> of shape \<open>(n,p)\<close> and a column \<open>v\<close> of shape \<open>(q,1)\<close>: numpy raises
  ValueError (shapes not aligned) unless \<open>p = q\<close>; the result has shape \<open>(n,1)\<close>.
\<close>

definition dot :: "'a arith \<Rightarrow> bool \<Rightarrow> 'a matrix \<Rightarrow> 'a list \<Rightarrow> py_error + 'a list" where
  "dot ar t A v = (if ncols A = length v then Inr (matvec ar t A v) else Inl ValueError)"

text \<open>
  \<open>u - v\<close> for columns of shapes \<open>(a,1)\<close> and \<open>(b,1)\<close>, with numpy's broadcasting: the
  shapes must agree, or one of them is \<open>(1,1)\<close> and its single entry is used against every
  entry of the other; anything else raises ValueError (operands could not be broadcast).
\<close>

definition sub_bc :: "'a arith \<Rightarrow> 'a list \<Rightarrow> 'a list \<Rightarrow> py_error + 'a list" where
  "sub_bc ar u v =
     (if length u = length v then Inr (map2 (f_sub ar) u v)
      else if length v = 1 then Inr (map (\<lambda>x. f_sub ar x (hd v)) u)
      else if length u = 1 then Inr (map (\<lambda>x. f_sub ar (hd u) x) v)
      else Inl ValueError)"

text \<open>A Python float times a column.\<close>

definition scale :: "'a arith \<Rightarrow> 'a \<Rightarrow> 'a list \<Rightarrow> 'a list" where
  "scale ar c v = map (f_mul ar c) v"

subsection \<open>The update and the convergence statistic\<close>

text \<open>
  The right-hand side of the assignment to \<open>beta_star_new\<close>, in Python's evaluation order:
  \<open>alpha*(2/len(X))\<close> first (a ZeroDivisionError when \<open>X\<close> has no rows), then
  \<open>X.dot(beta_star)\<close>, the subtraction of \<open>y.reshape(-1,1)\<close>, the product with
  \<open>X.transpose()\<close>, the scaling and the subtraction from \<open>beta_star\<close>.
\<close>

definition gd_update :: "'a arith \<Rightarrow> 'a matrix \<Rightarrow> 'a list \<Rightarrow> 'a \<Rightarrow> 'a list \<Rightarrow> py_error + 'a list" where
  "gd_update ar X y alpha b =
     (if len X = 0 then Inl ZeroDivisionError
      else
        let c = f_mul ar alpha (f_int_div ar 2 (int (len X))) in
        and_then (dot ar False X b) (\<lambda>Xb.
        and_then (sub_bc ar Xb y) (\<lambda>res.
        and_then (dot ar True (transpose_m X) res) (\<lambda>g.
        sub_bc ar b (scale ar c g)))))"

text \<open>\<open>np.sum(np.power(beta_star_new - beta_star,2))/2\<close>.\<close>

definition conv_stat :: "'a arith \<Rightarrow> 'a list \<Rightarrow> 'a list \<Rightarrow> py_error + 'a" where
  "conv_stat ar bn b =
     and_then (sub_bc ar bn b)
       (\<lambda>d. Inr (f_div_int ar (f_sum ar (map (\<lambda>x. f_power ar x 2) d)) 2))"

subsection \<open>The notebook's variables and its output\<close>

text \<open>
  What a \<open>print\<close> call writes is kept as the list of its arguments; standard output is the
  list of the calls made so far.
\<close>

datatype 'a pyval = Str string | IntV int | ArrV "'a list"

text \<open>
  The variables the cell assigns are notebook globals. \<open>beta_star\<close> is bound before the
  loop; \<open>beta_star_new\<close>, \<open>beta_hat\<close> and \<open>i\<close> are bound only once the code assigns them
  (\<open>None\<close> is an unbound name; in a kernel where the cell ran before, they may still hold
  the values of that run).
\<close>

record 'a globals =
  beta_star :: "'a list"
  beta_star_new :: "'a list option"
  beta_hat :: "'a list option"
  i :: "nat option"
  stdout :: "'a pyval list list"

definition print :: "'a pyval list \<Rightarrow> 'a globals \<Rightarrow> 'a globals" where
  "print args s = s\<lparr>stdout := stdout s @ [args]\<rparr>"

definition notice :: "'a pyval list" where
  "notice = [Str ''Maximum iterations reached before convergence.'']"

subsection \<open>The loop\<close>

text \<open>How a statement ends: normally, by \<open>break\<close>, or by raising.\<close>

datatype signal = Normal | Break | Raised py_error

text \<open>One execution of the loop body, with \<open>i\<close> bound to \<open>k\<close>.\<close>

definition loop_body ::
  "'a arith \<Rightarrow> 'a matrix \<Rightarrow> 'a list \<Rightarrow> 'a \<Rightarrow> 'a \<Rightarrow> int \<Rightarrow> nat \<Rightarrow> 'a globals \<Rightarrow> signal \<times> 'a globals" where
  "loop_body ar X y alpha tol max_iter k s =
     (let s1 = s\<lparr>i := Some k\<rparr> in
      case gd_update ar X y alpha (beta_star s1) of
        Inl e \<Rightarrow> (Raised e, s1)
      | Inr bn \<Rightarrow>
          let s2 = s1\<lparr>beta_star_new := Some bn\<rparr> in
          (case conv_stat ar bn (beta_star s2) of
             Inl e \<Rightarrow> (Raised e, s2)
           | Inr d \<Rightarrow>
               if f_less ar d tol then (Break, s2\<lparr>beta_hat := Some bn\<rparr>)
               else
                 let s3 = s2\<lparr>beta_star := bn\<rparr> in
                 if int k + 1 = max_iter then (Normal, print notice s3)
                 else (Normal, s3)))"

text \<open>
  \<open>for i in ks: body\<close>. The loop ends normally when the items are used up, and at once
  when the body breaks or raises.
\<close>

fun for_loop ::
  "(nat \<Rightarrow> 'a globals \<Rightarrow> signal \<times> 'a globals) \<Rightarrow> nat list \<Rightarrow> 'a globals \<Rightarrow> signal \<times> 'a globals" where
  "for_loop body [] s = (Normal, s)"
| "for_loop body (k # ks) s =
     (case body k s of
        (Normal, s') \<Rightarrow> for_loop body ks s'
      | (Break, s') \<Rightarrow> (Break, s')
      | (Raised e, s') \<Rightarrow> (Raised e, s'))"

text \<open>The number of times the loop runs its body.\<close>

fun body_runs ::
  "(nat \<Rightarrow> 'a globals \<Rightarrow> signal \<times> 'a globals) \<Rightarrow> nat list \<Rightarrow> 'a globals \<Rightarrow> nat" where
  "body_runs body [] s = 0"
| "body_runs body (k # ks) s =
     (case body k s of
        (Normal, s') \<Rightarrow> Suc (body_runs body ks s')
      | (Break, s') \<Rightarrow> 1
      | (Raised e, s') \<Rightarrow> 1)"

text \<open>\<open>range(max_iter)\<close> is empty when \<open>max_iter\<close> is not positive.\<close>

definition range_py :: "int \<Rightarrow> nat list" where
  "range_py m = [0..<nat m]"

definition gd_loop ::
  "'a arith \<Rightarrow> 'a matrix \<Rightarrow> 'a list \<Rightarrow> 'a \<Rightarrow> 'a \<Rightarrow> int \<Rightarrow> 'a globals \<Rightarrow> signal \<times> 'a globals" where
  "gd_loop ar X y alpha tol max_iter s =
     for_loop (loop_body ar X y alpha tol max_iter) (range_py max_iter) s"

definition gd_loop_runs ::
  "'a arith \<Rightarrow> 'a matrix \<Rightarrow> 'a list \<Rightarrow> 'a \<Rightarrow> 'a \<Rightarrow> int \<Rightarrow> 'a globals \<Rightarrow> nat" where
  "gd_loop_runs ar X y alpha tol max_iter s =
     body_runs (loop_body ar X y alpha tol max_iter) (range_py max_iter) s"

subsection \<open>The three prints after the loop, and the whole cell\<close>

text \<open>
  Reading an unbound name raises NameError; an exception ends the cell and leaves what was
  printed before it.
\<close>

definition final_prints :: "'a globals \<Rightarrow> py_error option \<times> 'a globals" where
  "final_prints s =
     (case i s of
        None \<Rightarrow> (Some (NameError ''i''), s)
      | Some k \<Rightarrow>
          let s1 = print [Str ''Went through'', IntV (int k), Str ''iterations''] s;
              s2 = print [Str ''beta_hat =''] s1
          in (case beta_hat s2 of
                None \<Rightarrow> (Some (NameError ''beta_hat''), s2)
              | Some b \<Rightarrow> (None, print [ArrV b] s2)))"

definition gd_cell ::
  "'a arith \<Rightarrow> 'a matrix \<Rightarrow> 'a list \<Rightarrow> 'a \<Rightarrow> 'a \<Rightarrow> int \<Rightarrow> 'a globals \<Rightarrow> py_error option \<times> 'a globals" where
  "gd_cell ar X y alpha tol max_iter s =
     (case gd_loop ar X y alpha tol max_iter s of
        (Raised e, s') \<Rightarrow> (Some e, s')
      | (Normal, s') \<Rightarrow> final_prints s'
      | (Break, s') \<Rightarrow> final_prints s')"

text \<open>A freshly started kernel: only \<open>beta_star\<close> is bound, nothing is printed yet.\<close>

definition fresh :: "'a list \<Rightarrow> 'a globals" where
  "fresh b0 = \<lparr>beta_star = b0, beta_star_new = None, beta_hat = None, i = None, stdout = []\<rparr>"

subsection \<open>Well-shaped inputs and the sequence of estimates\<close>

text \<open>
  The shapes the notebook uses: \<open>X\<close> is \<open>(n,p)\<close> with \<open>n > 0\<close>, \<open>y\<close> has \<open>n\<close> entries and
  \<open>beta_star\<close> is \<open>(p,1)\<close>. On such inputs \<open>gd_update\<close> raises nothing and returns
  \<open>gd_next\<close> (lemma \<open>gd_update_well_shaped\<close>), and the convergence statistic of the
  iteration that starts from \<open>b\<close> is \<open>step_stat\<close> (lemma \<open>conv_stat_gd_next\<close>). Both are
  computed with the operations of \<open>ar\<close>, as the code computes them.
\<close>

definition well_shaped :: "'a matrix \<Rightarrow> 'a list \<Rightarrow> 'a list \<Rightarrow> bool" where
  "well_shaped X y b = (wf_matrix X \<and> 0 < len X \<and> length y = len X \<and> length b = ncols X)"

definition gd_next :: "'a arith \<Rightarrow> 'a matrix \<Rightarrow> 'a list \<Rightarrow> 'a \<Rightarrow> 'a list \<Rightarrow> 'a list" where
  "gd_next ar X y alpha b =
     map2 (f_sub ar) b (scale ar (f_mul ar alpha (f_int_div ar 2 (int (len X))))
       (matvec ar True (transpose_m X) (map2 (f_sub ar) (matvec ar False X b) y)))"

definition step_stat :: "'a arith \<Rightarrow> 'a matrix \<Rightarrow> 'a list \<Rightarrow> 'a \<Rightarrow> 'a list \<Rightarrow> 'a" where
  "step_stat ar X y alpha b =
     f_div_int ar
       (f_sum ar (map (\<lambda>x. f_power ar x 2) (map2 (f_sub ar) (gd_next ar X y alpha b) b))) 2"

text \<open>The value of \<open>beta_star\<close> after \<open>t\<close> iterations that did not break.\<close>

definition estimate :: "'a arith \<Rightarrow> 'a matrix \<Rightarrow> 'a list \<Rightarrow> 'a \<Rightarrow> 'a list \<Rightarrow> nat \<Rightarrow> 'a list" where
  "estimate ar X y alpha b0 t = ((gd_next ar X y alpha) ^^ t) b0"

subsection \<open>Concrete inputs\<close>

text \<open>A design matrix with one row and one column, and two with two rows.\<close>

definition X1 :: "real matrix" where
  "X1 = \<lparr>ncols = 1, rows = [[1]]\<rparr>"

definition X2 :: "real matrix" where
  "X2 = \<lparr>ncols = 1, rows = [[1], [1]]\<rparr>"


section \<open>Properties\<close>

subsection \<open>Shapes and the update\<close>

lemma length_matvec [simp]: "length (matvec ar t A v) = len A"
  by (simp add: matvec_def)

lemma nth_matvec: "k < len A \<Longrightarrow> matvec ar t A v ! k = f_dot ar t A k v"
  by (simp add: matvec_def)

lemma len_transpose_m [simp]: "len (transpose_m A) = ncols A"
  by (simp add: transpose_m_def len_def)

lemma ncols_transpose_m [simp]: "ncols (transpose_m A) = len A"
  by (simp add: transpose_m_def len_def)

lemma length_scale [simp]: "length (scale ar c v) = length v"
  by (simp add: scale_def)

lemma length_gd_next:
  "well_shaped X y b \<Longrightarrow> length (gd_next ar X y alpha b) = ncols X"
  by (simp add: gd_next_def well_shaped_def)

lemma well_shaped_gd_next:
  "well_shaped X y b \<Longrightarrow> well_shaped X y (gd_next ar X y alpha b)"
  using length_gd_next [of X y b ar alpha] by (simp add: well_shaped_def)

lemma gd_update_well_shaped:
  "well_shaped X y b \<Longrightarrow> gd_update ar X y alpha b = Inr (gd_next ar X y alpha b)"
  by (simp add: gd_update_def gd_next_def well_shaped_def dot_def sub_bc_def and_then_def Let_def)

lemma conv_stat_same_length:
  "length bn = length b \<Longrightarrow>
   conv_stat ar bn b =
     Inr (f_div_int ar (f_sum ar (map (\<lambda>x. f_power ar x 2) (map2 (f_sub ar) bn b))) 2)"
  by (simp add: conv_stat_def sub_bc_def and_then_def)

lemma conv_stat_gd_next:
  "well_shaped X y b \<Longrightarrow> conv_stat ar (gd_next ar X y alpha b) b = Inr (step_stat ar X y alpha b)"
  by (simp add: conv_stat_same_length length_gd_next step_stat_def well_shaped_def)



text \<open>
  In exact arithmetic the entries are the familiar sums: entry \<open>j\<close> of the update is
  \<open>b\<^sub>j - alpha * (2/n) * (\<Sum>k<n. X\<^sub>k\<^sub>j * ((\<Sum>l<p. X\<^sub>k\<^sub>l * b\<^sub>l) - y\<^sub>k))\<close>. The doubles of the code
  follow these sums up to rounding only.
\<close>

lemma row_dot_sum:
  "length r = length v \<Longrightarrow> row_dot r v = (\<Sum>l<length v. r ! l * v ! l)"
proof -
  assume len: "length r = length v"
  have "map2 (*) r v = map (\<lambda>l. r ! l * v ! l) [0..<length v]"
    using len by (intro nth_equalityI) simp_all
  then show ?thesis
    by (simp add: row_dot_def sum_list_sum_nth atLeast0LessThan)
qed

lemma wf_matrix_nth:
  "wf_matrix A \<Longrightarrow> k < len A \<Longrightarrow> length (rows A ! k) = ncols A"
  by (simp add: wf_matrix_def len_def list_all_length)

lemma rows_transpose_nth:
  "j < ncols A \<Longrightarrow> rows (transpose_m A) ! j = map (\<lambda>r. r ! j) (rows A)"
  by (simp add: transpose_m_def)

lemma f_dot_exact_transpose:
  assumes "j < ncols A" "length w = len A"
  shows "f_dot exact t (transpose_m A) j w = (\<Sum>k<len A. rows A ! k ! j * w ! k)"
proof -
  have "f_dot exact t (transpose_m A) j w = row_dot (map (\<lambda>r. r ! j) (rows A)) w"
    using assms by (simp add: exact_def rows_transpose_nth)
  also have "\<dots> = (\<Sum>k<length w. map (\<lambda>r. r ! j) (rows A) ! k * w ! k)"
    using assms by (intro row_dot_sum) (simp add: len_def)
  also have "\<dots> = (\<Sum>k<len A. rows A ! k ! j * w ! k)"
    using assms by (simp add: len_def)
  finally show ?thesis .
qed

lemma gd_update_exact_sums:
  assumes "wf_matrix X" "0 < len X" "length y = len X" "length b = ncols X"
  shows "\<exists>bn. gd_update exact X y alpha b = Inr bn \<and> length bn = ncols X \<and>
           (\<forall>j<ncols X. bn ! j =
              b ! j - alpha * (2 / real (len X)) *
                (\<Sum>k<len X. rows X ! k ! j * ((\<Sum>l<ncols X. rows X ! k ! l * b ! l) - y ! k)))"
proof -
  have ws: "well_shaped X y b" using assms by (simp add: well_shaped_def)
  let ?r = "map2 (f_sub exact) (matvec exact False X b) y"
  have grad: "f_dot exact True (transpose_m X) j ?r =
      (\<Sum>k<len X. rows X ! k ! j * ((\<Sum>l<ncols X. rows X ! k ! l * b ! l) - y ! k))"
    if "j < ncols X" for j
  proof -
    have "f_dot exact True (transpose_m X) j ?r = (\<Sum>k<len X. rows X ! k ! j * (?r ! k))"
      using that assms by (intro f_dot_exact_transpose) simp_all
    also have "\<dots> = (\<Sum>k<len X. rows X ! k ! j * ((\<Sum>l<ncols X. rows X ! k ! l * b ! l) - y ! k))"
      using assms
      by (intro sum.cong refl) (simp add: nth_matvec row_dot_sum wf_matrix_nth exact_def)
    finally show ?thesis .
  qed
  have "\<And>j. j < ncols X \<Longrightarrow> gd_next exact X y alpha b ! j =
      b ! j - alpha * (2 / real (len X)) *
        (\<Sum>k<len X. rows X ! k ! j * ((\<Sum>l<ncols X. rows X ! k ! l * b ! l) - y ! k))"
  proof -
    fix j assume j: "j < ncols X"
    have "gd_next exact X y alpha b ! j =
        f_sub exact (b ! j)
          (f_mul exact (f_mul exact alpha (f_int_div exact 2 (int (len X))))
             (f_dot exact True (transpose_m X) j ?r))"
      using assms j by (simp add: gd_next_def scale_def nth_matvec)
    also have "\<dots> = b ! j - alpha * (2 / real (len X)) * f_dot exact True (transpose_m X) j ?r"
      by (simp add: exact_def)
    finally show "gd_next exact X y alpha b ! j =
      b ! j - alpha * (2 / real (len X)) *
        (\<Sum>k<len X. rows X ! k ! j * ((\<Sum>l<ncols X. rows X ! k ! l * b ! l) - y ! k))"
      by (simp add: grad [OF j])
  qed
  then show ?thesis
    using gd_update_well_shaped [OF ws] length_gd_next [OF ws] by simp
qed

subsection \<open>The loop on well-shaped inputs\<close>

lemma for_loop_append:
  "for_loop body (ks @ ks') s =
     (case for_loop body ks s of
        (Normal, s') \<Rightarrow> for_loop body ks' s'
      | (Break, s') \<Rightarrow> (Break, s')
      | (Raised e, s') \<Rightarrow> (Raised e, s'))"
  by (induction ks arbitrary: s) (auto split: prod.splits signal.splits)

lemma body_runs_le: "body_runs body ks s \<le> length ks"
  by (induction ks arbitrary: s) (auto split: prod.splits signal.splits)

lemma body_runs_append_normal:
  "for_loop body ks s = (Normal, s') \<Longrightarrow>
   body_runs body (ks @ ks') s = length ks + body_runs body ks' s'"
  by (induction ks arbitrary: s) (auto split: prod.splits signal.splits)

lemma well_shaped_estimate:
  "well_shaped X y b0 \<Longrightarrow> well_shaped X y (estimate ar X y alpha b0 t)"
  by (induction t) (simp_all add: estimate_def well_shaped_gd_next)

lemma estimate_Suc: "estimate ar X y alpha b0 (Suc t) = gd_next ar X y alpha (estimate ar X y alpha b0 t)"
  by (simp add: estimate_def)

lemma estimate_0: "estimate ar X y alpha b0 0 = b0"
  by (simp add: estimate_def)

lemma loop_body_well_shaped:
  assumes "well_shaped X y (beta_star s)"
  shows "loop_body ar X y alpha tol max_iter k s =
     (if f_less ar (step_stat ar X y alpha (beta_star s)) tol
      then (Break, s\<lparr>i := Some k, beta_star_new := Some (gd_next ar X y alpha (beta_star s)),
                      beta_hat := Some (gd_next ar X y alpha (beta_star s))\<rparr>)
      else (Normal, s\<lparr>i := Some k, beta_star_new := Some (gd_next ar X y alpha (beta_star s)),
                       beta_star := gd_next ar X y alpha (beta_star s),
                       stdout := stdout s @ (if int k + 1 = max_iter then [notice] else [])\<rparr>))"
  using assms
  by (simp add: loop_body_def gd_update_well_shaped conv_stat_gd_next print_def Let_def)


lemma loop_prefix:
  assumes ws: "well_shaped X y (beta_star s)"
    and nc: "\<forall>u<m. \<not> f_less ar (step_stat ar X y alpha (estimate ar X y alpha (beta_star s) u)) tol"
    and le: "int m \<le> max_iter"
  shows "for_loop (loop_body ar X y alpha tol max_iter) [0..<m] s =
     (Normal,
      if m = 0 then s
      else s\<lparr>i := Some (m - 1),
              beta_star_new := Some (estimate ar X y alpha (beta_star s) m),
              beta_star := estimate ar X y alpha (beta_star s) m,
              stdout := stdout s @ (if int m = max_iter then [notice] else [])\<rparr>)"
  using nc le
proof (induction m)
  case 0
  then show ?case by simp
next
  case (Suc m)
  let ?e = "estimate ar X y alpha (beta_star s)"
  let ?sm = "if m = 0 then s
      else s\<lparr>i := Some (m - 1), beta_star_new := Some (?e m), beta_star := ?e m,
              stdout := stdout s @ (if int m = max_iter then [notice] else [])\<rparr>"
  have pre: "for_loop (loop_body ar X y alpha tol max_iter) [0..<m] s = (Normal, ?sm)"
    using Suc by simp
  have bs: "beta_star ?sm = ?e m" by (simp add: estimate_0)
  have out: "stdout ?sm = stdout s" using Suc.prems by simp
  have ws': "well_shaped X y (beta_star ?sm)"
    unfolding bs using ws by (rule well_shaped_estimate)
  have nb: "\<not> f_less ar (step_stat ar X y alpha (beta_star ?sm)) tol"
    unfolding bs using Suc.prems by simp
  have body: "loop_body ar X y alpha tol max_iter m ?sm =
      (Normal, ?sm\<lparr>i := Some m, beta_star_new := Some (?e (Suc m)), beta_star := ?e (Suc m),
                    stdout := stdout s @ (if int m + 1 = max_iter then [notice] else [])\<rparr>)"
    using nb bs out by (simp only: loop_body_well_shaped [OF ws'] estimate_Suc if_False)
  have "for_loop (loop_body ar X y alpha tol max_iter) [0..<Suc m] s =
      for_loop (loop_body ar X y alpha tol max_iter) [m] ?sm"
    by (simp add: for_loop_append pre del: for_loop.simps)
  also have "\<dots> = (Normal, ?sm\<lparr>i := Some m, beta_star_new := Some (?e (Suc m)), beta_star := ?e (Suc m),
                    stdout := stdout s @ (if int m + 1 = max_iter then [notice] else [])\<rparr>)"
    by (simp add: body)
  also have "\<dots> = (Normal, s\<lparr>i := Some (Suc m - 1), beta_star_new := Some (?e (Suc m)), beta_star := ?e (Suc m),
                    stdout := stdout s @ (if int (Suc m) = max_iter then [notice] else [])\<rparr>)"
    by (simp add: add.commute)
  finally show ?case by simp
qed

lemma loop_converges_at:
  assumes ws: "well_shaped X y (beta_star s)"
    and nc: "\<forall>u<t. \<not> f_less ar (step_stat ar X y alpha (estimate ar X y alpha (beta_star s) u)) tol"
    and conv: "f_less ar (step_stat ar X y alpha (estimate ar X y alpha (beta_star s) t)) tol"
    and lt: "int t < max_iter"
  shows "gd_loop ar X y alpha tol max_iter s =
     (Break, s\<lparr>i := Some t,
                beta_star_new := Some (estimate ar X y alpha (beta_star s) (Suc t)),
                beta_star := estimate ar X y alpha (beta_star s) t,
                beta_hat := Some (estimate ar X y alpha (beta_star s) (Suc t))\<rparr>)"
    and "gd_loop_runs ar X y alpha tol max_iter s = Suc t"
proof -
  let ?e = "estimate ar X y alpha (beta_star s)"
  let ?body = "loop_body ar X y alpha tol max_iter"
  let ?st = "if t = 0 then s
      else s\<lparr>i := Some (t - 1), beta_star_new := Some (?e t), beta_star := ?e t,
              stdout := stdout s @ (if int t = max_iter then [notice] else [])\<rparr>"
  have tlt: "t < nat max_iter" using lt by simp
  have split: "range_py max_iter = [0..<t] @ t # [Suc t..<nat max_iter]"
  proof -
    have "[0..<t + (nat max_iter - t)] = [0..<t] @ [t..<t + (nat max_iter - t)]"
      by (rule upt_add_eq_append) simp
    moreover have "t + (nat max_iter - t) = nat max_iter" using tlt by simp
    moreover have "[t..<nat max_iter] = t # [Suc t..<nat max_iter]"
      using tlt by (rule upt_conv_Cons)
    ultimately show ?thesis by (simp add: range_py_def)
  qed
  have pre: "for_loop ?body [0..<t] s = (Normal, ?st)"
    using loop_prefix [OF ws nc, of max_iter] lt by simp
  have bs: "beta_star ?st = ?e t" by (simp add: estimate_0)
  have out: "stdout ?st = stdout s" using lt by simp
  have ws': "well_shaped X y (beta_star ?st)"
    unfolding bs using ws by (rule well_shaped_estimate)
  have cv: "f_less ar (step_stat ar X y alpha (beta_star ?st)) tol"
    unfolding bs using conv .
  have body: "?body t ?st =
      (Break, ?st\<lparr>i := Some t, beta_star_new := Some (?e (Suc t)), beta_hat := Some (?e (Suc t))\<rparr>)"
    using cv bs by (simp only: loop_body_well_shaped [OF ws'] estimate_Suc if_True)
  have "gd_loop ar X y alpha tol max_iter s = for_loop ?body (t # [Suc t..<nat max_iter]) ?st"
    unfolding gd_loop_def split by (simp add: for_loop_append pre del: for_loop.simps)
  also have "\<dots> = (Break, ?st\<lparr>i := Some t, beta_star_new := Some (?e (Suc t)), beta_hat := Some (?e (Suc t))\<rparr>)"
    by (simp add: body)
  also have "\<dots> = (Break, s\<lparr>i := Some t, beta_star_new := Some (?e (Suc t)), beta_star := ?e t,
        beta_hat := Some (?e (Suc t))\<rparr>)"
    using lt by (simp add: estimate_0)
  finally show "gd_loop ar X y alpha tol max_iter s =
     (Break, s\<lparr>i := Some t, beta_star_new := Some (?e (Suc t)), beta_star := ?e t,
                beta_hat := Some (?e (Suc t))\<rparr>)" .
  have "gd_loop_runs ar X y alpha tol max_iter s = length [0..<t] + body_runs ?body (t # [Suc t..<nat max_iter]) ?st"
    unfolding gd_loop_runs_def split by (rule body_runs_append_normal [OF pre])
  also have "\<dots> = Suc t"
    by (simp add: body)
  finally show "gd_loop_runs ar X y alpha tol max_iter s = Suc t" .
qed

lemma loop_exhausted:
  assumes ws: "well_shaped X y (beta_star s)"
    and nc: "\<forall>u. int u < max_iter \<longrightarrow> \<not> f_less ar (step_stat ar X y alpha (estimate ar X y alpha (beta_star s) u)) tol"
  shows "gd_loop ar X y alpha tol max_iter s =
     (Normal,
      if max_iter \<le> 0 then s
      else s\<lparr>i := Some (nat max_iter - 1),
              beta_star_new := Some (estimate ar X y alpha (beta_star s) (nat max_iter)),
              beta_star := estimate ar X y alpha (beta_star s) (nat max_iter),
              stdout := stdout s @ [notice]\<rparr>)"
    and "gd_loop_runs ar X y alpha tol max_iter s = nat max_iter"
proof -
  have nc': "\<forall>u<nat max_iter. \<not> f_less ar (step_stat ar X y alpha (estimate ar X y alpha (beta_star s) u)) tol"
    using nc by (simp add: zless_nat_eq_int_zless)
  have le: "int (nat max_iter) \<le> max_iter \<or> max_iter \<le> 0" by simp
  show "gd_loop ar X y alpha tol max_iter s =
     (Normal,
      if max_iter \<le> 0 then s
      else s\<lparr>i := Some (nat max_iter - 1),
              beta_star_new := Some (estimate ar X y alpha (beta_star s) (nat max_iter)),
              beta_star := estimate ar X y alpha (beta_star s) (nat max_iter),
              stdout := stdout s @ [notice]\<rparr>)"
  proof (cases "max_iter \<le> 0")
    case True
    then show ?thesis by (simp add: gd_loop_def range_py_def)
  next
    case False
    then have "int (nat max_iter) \<le> max_iter" by simp
    from loop_prefix [OF ws nc' this] False show ?thesis
      by (simp add: gd_loop_def range_py_def)
  qed
  show "gd_loop_runs ar X y alpha tol max_iter s = nat max_iter"
  proof (cases "max_iter \<le> 0")
    case True
    then show ?thesis by (simp add: gd_loop_runs_def range_py_def)
  next
    case False
    then have "int (nat max_iter) \<le> max_iter" by simp
    from loop_prefix [OF ws nc' this]
    have "body_runs (loop_body ar X y alpha tol max_iter) ([0..<nat max_iter] @ []) s
        = length [0..<nat max_iter] + body_runs (loop_body ar X y alpha tol max_iter) [] (snd (for_loop (loop_body ar X y alpha tol max_iter) [0..<nat max_iter] s))"
      by (intro body_runs_append_normal) simp
    then show ?thesis by (simp add: gd_loop_runs_def range_py_def)
  qed
qed


subsection \<open>Convergence\<close>

lemma final_prints_bound:
  "i s = Some k \<Longrightarrow> beta_hat s = Some b \<Longrightarrow>
   final_prints s =
     (None, s\<lparr>stdout := stdout s @
        [[Str ''Went through'', IntV (int k), Str ''iterations''], [Str ''beta_hat =''], [ArrV b]]\<rparr>)"
  by (simp add: final_prints_def print_def)

text \<open>
  Claim C3. On well-shaped inputs, and whatever the arithmetic does, the loop ends by
  \<open>break\<close> (converged) exactly when some iteration \<open>t\<close> within the cap passes the test
  \<open>np.sum(np.power(beta_star_new - beta_star,2))/2 < tol\<close>, the statistic and the comparison
  being the ones the code computes. At the first such iteration the update just computed
  becomes \<open>beta_hat\<close>, \<open>beta_star\<close> keeps the value it had when that iteration began, the
  body is not run again, and the cell ends without an exception, its last print being that
  \<open>beta_hat\<close>.
\<close>

theorem converged_iff_tolerance_met:
  assumes ws: "well_shaped X y (beta_star s)"
  shows "(fst (gd_loop ar X y alpha tol max_iter s) = Break \<longleftrightarrow>
            (\<exists>t. int t < max_iter \<and>
               f_less ar (step_stat ar X y alpha (estimate ar X y alpha (beta_star s) t)) tol)) \<and>
         (\<forall>t. int t < max_iter \<and>
              f_less ar (step_stat ar X y alpha (estimate ar X y alpha (beta_star s) t)) tol \<and>
              (\<forall>u<t. \<not> f_less ar (step_stat ar X y alpha (estimate ar X y alpha (beta_star s) u)) tol) \<longrightarrow>
              gd_loop ar X y alpha tol max_iter s =
                (Break, s\<lparr>i := Some t,
                           beta_star_new := Some (estimate ar X y alpha (beta_star s) (Suc t)),
                           beta_star := estimate ar X y alpha (beta_star s) t,
                           beta_hat := Some (estimate ar X y alpha (beta_star s) (Suc t))\<rparr>) \<and>
              gd_loop_runs ar X y alpha tol max_iter s = Suc t \<and>
              fst (gd_cell ar X y alpha tol max_iter s) = None \<and>
              last (stdout (snd (gd_cell ar X y alpha tol max_iter s))) =
                [ArrV (estimate ar X y alpha (beta_star s) (Suc t))])"
proof (intro conjI allI impI iffI)
  let ?P = "\<lambda>t. int t < max_iter \<and> f_less ar (step_stat ar X y alpha (estimate ar X y alpha (beta_star s) t)) tol"
  {
    assume brk: "fst (gd_loop ar X y alpha tol max_iter s) = Break"
    show "\<exists>t. ?P t"
    proof (rule ccontr)
      assume "\<not> (\<exists>t. ?P t)"
      then have "\<forall>u. int u < max_iter \<longrightarrow>
          \<not> f_less ar (step_stat ar X y alpha (estimate ar X y alpha (beta_star s) u)) tol" by blast
      from loop_exhausted(1) [OF ws this] brk show False by simp
    qed
  next
    assume "\<exists>t. ?P t"
    then obtain t where t: "?P t" and least: "\<forall>u<t. \<not> ?P u"
      using exists_least_iff [of ?P] by blast
    have nc: "\<forall>u<t. \<not> f_less ar (step_stat ar X y alpha (estimate ar X y alpha (beta_star s) u)) tol"
    proof (intro allI impI)
      fix u assume "u < t"
      with t have "int u < max_iter" by simp
      with least \<open>u < t\<close> show "\<not> f_less ar (step_stat ar X y alpha (estimate ar X y alpha (beta_star s) u)) tol"
        by blast
    qed
    from loop_converges_at(1) [OF ws nc] t
    show "fst (gd_loop ar X y alpha tol max_iter s) = Break" by simp
  next
    fix t
    assume h: "int t < max_iter \<and>
              f_less ar (step_stat ar X y alpha (estimate ar X y alpha (beta_star s) t)) tol \<and>
              (\<forall>u<t. \<not> f_less ar (step_stat ar X y alpha (estimate ar X y alpha (beta_star s) u)) tol)"
    then have nc: "\<forall>u<t. \<not> f_less ar (step_stat ar X y alpha (estimate ar X y alpha (beta_star s) u)) tol"
      and cv: "f_less ar (step_stat ar X y alpha (estimate ar X y alpha (beta_star s) t)) tol"
      and lt: "int t < max_iter" by simp_all
    note L = loop_converges_at [OF ws nc cv lt]
    show "gd_loop ar X y alpha tol max_iter s =
                (Break, s\<lparr>i := Some t,
                           beta_star_new := Some (estimate ar X y alpha (beta_star s) (Suc t)),
                           beta_star := estimate ar X y alpha (beta_star s) t,
                           beta_hat := Some (estimate ar X y alpha (beta_star s) (Suc t))\<rparr>)"
      by (rule L(1))
    show "gd_loop_runs ar X y alpha tol max_iter s = Suc t" by (rule L(2))
    show "fst (gd_cell ar X y alpha tol max_iter s) = None"
      by (simp add: gd_cell_def L(1) final_prints_bound)
    show "last (stdout (snd (gd_cell ar X y alpha tol max_iter s))) =
                [ArrV (estimate ar X y alpha (beta_star s) (Suc t))]"
      by (simp add: gd_cell_def L(1) final_prints_bound)
  }
qed

theorem converged_iff_tolerance_met_witness:
  "well_shaped X1 [1] (beta_star (fresh [0])) \<and>
   fst (gd_loop exact X1 [1] (1 / 4) (1 / 20) 5 (fresh [0])) = Break \<and>
   gd_loop_runs exact X1 [1] (1 / 4) (1 / 20) 5 (fresh [0]) = 2 \<and>
   last (stdout (snd (gd_cell exact X1 [1] (1 / 4) (1 / 20) 5 (fresh [0])))) = [ArrV [3 / 4]]"
proof -
  have h: "well_shaped X1 [1] (beta_star (fresh [0]))"
    by (simp add: well_shaped_def wf_matrix_def len_def X1_def fresh_def)
  have e0: "estimate exact X1 [1] (1 / 4) (beta_star (fresh [0])) 0 = [0]"
    by (simp add: estimate_def fresh_def)
  have e1: "estimate exact X1 [1] (1 / 4) (beta_star (fresh [0])) (Suc 0) = [1 / 2]"
    by (simp add: estimate_def fresh_def gd_next_def scale_def matvec_def transpose_m_def
        row_dot_def len_def X1_def exact_def)
  have e2: "estimate exact X1 [1] (1 / 4) (beta_star (fresh [0])) (Suc (Suc 0)) = [3 / 4]"
    using e1 by (simp add: estimate_Suc gd_next_def scale_def matvec_def transpose_m_def
        row_dot_def len_def X1_def exact_def)
  have s0: "\<not> f_less exact (step_stat exact X1 [1] (1 / 4) [0]) (1 / 20)"
    by (simp add: step_stat_def gd_next_def scale_def matvec_def transpose_m_def
        row_dot_def len_def X1_def exact_def power2_eq_square)
  have s1: "f_less exact (step_stat exact X1 [1] (1 / 4) [1 / 2]) (1 / 20)"
    by (simp add: step_stat_def gd_next_def scale_def matvec_def transpose_m_def
        row_dot_def len_def X1_def exact_def power2_eq_square)
  have pre: "int (Suc 0) < 5 \<and>
      f_less exact (step_stat exact X1 [1] (1 / 4) (estimate exact X1 [1] (1 / 4) (beta_star (fresh [0])) (Suc 0))) (1 / 20) \<and>
      (\<forall>u<Suc 0. \<not> f_less exact (step_stat exact X1 [1] (1 / 4) (estimate exact X1 [1] (1 / 4) (beta_star (fresh [0])) u)) (1 / 20))"
    using s0 s1 e0 e1 by simp
  from converged_iff_tolerance_met [OF h, where ar = exact and alpha = "1 / 4" and tol = "1 / 20" and max_iter = 5] pre
  have "gd_loop exact X1 [1] (1 / 4) (1 / 20) 5 (fresh [0]) =
          (Break, (fresh [0])\<lparr>i := Some (Suc 0),
             beta_star_new := Some (estimate exact X1 [1] (1 / 4) (beta_star (fresh [0])) (Suc (Suc 0))),
             beta_star := estimate exact X1 [1] (1 / 4) (beta_star (fresh [0])) (Suc 0),
             beta_hat := Some (estimate exact X1 [1] (1 / 4) (beta_star (fresh [0])) (Suc (Suc 0)))\<rparr>) \<and>
        gd_loop_runs exact X1 [1] (1 / 4) (1 / 20) 5 (fresh [0]) = Suc (Suc 0) \<and>
        fst (gd_cell exact X1 [1] (1 / 4) (1 / 20) 5 (fresh [0])) = None \<and>
        last (stdout (snd (gd_cell exact X1 [1] (1 / 4) (1 / 20) 5 (fresh [0])))) =
          [ArrV (estimate exact X1 [1] (1 / 4) (beta_star (fresh [0])) (Suc (Suc 0)))]"
    by blast
  then show ?thesis using h e2 by simp
qed

text \<open>
  Claim C10. The tolerance test comes before the cap test: when the test
  \<open>np.sum(np.power(beta_star_new - beta_star,2))/2 < tol\<close>, as the code computes it, first
  passes in the last permitted iteration (\<open>i + 1 = max_iter\<close>), the loop ends by \<open>break\<close>,
  nothing is printed inside the loop, and the output of the cell is the three final prints,
  without the notice.
\<close>

theorem convergence_in_final_iteration:
  assumes ws: "well_shaped X y (beta_star s)"
    and pos: "0 < max_iter"
    and nc: "\<forall>u. int u + 1 < max_iter \<longrightarrow>
          \<not> f_less ar (step_stat ar X y alpha (estimate ar X y alpha (beta_star s) u)) tol"
    and conv: "f_less ar (step_stat ar X y alpha (estimate ar X y alpha (beta_star s) (nat max_iter - 1))) tol"
  shows "fst (gd_loop ar X y alpha tol max_iter s) = Break \<and>
         i (snd (gd_loop ar X y alpha tol max_iter s)) = Some (nat max_iter - 1) \<and>
         stdout (snd (gd_loop ar X y alpha tol max_iter s)) = stdout s \<and>
         fst (gd_cell ar X y alpha tol max_iter s) = None \<and>
         stdout (snd (gd_cell ar X y alpha tol max_iter s)) =
           stdout s @
           [[Str ''Went through'', IntV (max_iter - 1), Str ''iterations''],
            [Str ''beta_hat =''],
            [ArrV (estimate ar X y alpha (beta_star s) (nat max_iter))]]"
proof -
  obtain t where t: "nat max_iter = Suc t"
    using pos by (cases "nat max_iter") simp_all
  then have mi: "max_iter = int t + 1" using pos by linarith
  have lt: "int t < max_iter" using mi by simp
  have cv: "f_less ar (step_stat ar X y alpha (estimate ar X y alpha (beta_star s) t)) tol"
    using conv t by simp
  have nc': "\<forall>u<t. \<not> f_less ar (step_stat ar X y alpha (estimate ar X y alpha (beta_star s) u)) tol"
  proof (intro allI impI)
    fix u assume "u < t"
    then have "int u + 1 < max_iter" using mi by simp
    with nc show "\<not> f_less ar (step_stat ar X y alpha (estimate ar X y alpha (beta_star s) u)) tol" by blast
  qed
  note L = loop_converges_at(1) [OF ws nc' cv lt]
  show ?thesis
    unfolding gd_cell_def L t by (simp add: final_prints_bound mi)
qed

theorem convergence_in_final_iteration_witness:
  "fst (gd_loop exact X1 [1] (1 / 4) (1 / 20) 2 (fresh [0])) = Break \<and>
   i (snd (gd_loop exact X1 [1] (1 / 4) (1 / 20) 2 (fresh [0]))) = Some 1 \<and>
   stdout (snd (gd_cell exact X1 [1] (1 / 4) (1 / 20) 2 (fresh [0]))) =
     [[Str ''Went through'', IntV 1, Str ''iterations''], [Str ''beta_hat =''], [ArrV [3 / 4]]]"
proof -
  have h: "well_shaped X1 [1] (beta_star (fresh [0]))"
    by (simp add: well_shaped_def wf_matrix_def len_def X1_def fresh_def)
  have e0: "estimate exact X1 [1] (1 / 4) (beta_star (fresh [0])) 0 = [0]"
    by (simp add: estimate_def fresh_def)
  have e1: "estimate exact X1 [1] (1 / 4) (beta_star (fresh [0])) (Suc 0) = [1 / 2]"
    by (simp add: estimate_def fresh_def gd_next_def scale_def matvec_def transpose_m_def
        row_dot_def len_def X1_def exact_def)
  have e2: "estimate exact X1 [1] (1 / 4) (beta_star (fresh [0])) (Suc (Suc 0)) = [3 / 4]"
    using e1 by (simp add: estimate_Suc gd_next_def scale_def matvec_def transpose_m_def
        row_dot_def len_def X1_def exact_def)
  have s0: "\<not> f_less exact (step_stat exact X1 [1] (1 / 4) [0]) (1 / 20)"
    by (simp add: step_stat_def gd_next_def scale_def matvec_def transpose_m_def
        row_dot_def len_def X1_def exact_def power2_eq_square)
  have s1: "f_less exact (step_stat exact X1 [1] (1 / 4) [1 / 2]) (1 / 20)"
    by (simp add: step_stat_def gd_next_def scale_def matvec_def transpose_m_def
        row_dot_def len_def X1_def exact_def power2_eq_square)
  have pos: "(0::int) < 2" by simp
  have nc: "\<forall>u. int u + 1 < 2 \<longrightarrow>
      \<not> f_less exact (step_stat exact X1 [1] (1 / 4) (estimate exact X1 [1] (1 / 4) (beta_star (fresh [0])) u)) (1 / 20)"
    using s0 e0 by auto
  have cv: "f_less exact (step_stat exact X1 [1] (1 / 4) (estimate exact X1 [1] (1 / 4) (beta_star (fresh [0])) (nat 2 - 1))) (1 / 20)"
    using s1 e1 by simp
  have n2: "nat 2 = Suc (Suc 0)" by simp
  from convergence_in_final_iteration [OF h pos nc cv]
  show ?thesis using e2 by (simp add: numeral_2_eq_2 fresh_def)
qed

subsection \<open>The iteration cap\<close>

text \<open>
  Claim C9. For every input the loop runs its body at most \<open>max_iter\<close> times (not at all
  when \<open>max_iter\<close> is not positive). The loop is a structural recursion over the finite list
  \<open>range(max_iter)\<close> and every operation of the body is total, so the cell always ends:
  normally, or with one of the exceptions of the model.
\<close>

theorem loop_runs_at_most_max_iter:
  "int (gd_loop_runs ar X y alpha tol max_iter s) \<le> max 0 max_iter"
  using body_runs_le [of "loop_body ar X y alpha tol max_iter" "range_py max_iter" s]
  by (simp add: gd_loop_runs_def range_py_def)

subsection \<open>Reaching the cap\<close>

text \<open>
  A well-shaped run with \<open>max_iter > 0\<close> that never meets the tolerance: the notice and the
  last loop index \<open>max_iter - 1\<close> are printed, the last update is left in \<open>beta_star\<close>, and
  \<open>print(beta_hat)\<close> raises NameError, or prints the \<open>beta_hat\<close> of an earlier run if the
  kernel still holds one.
\<close>

lemma cap_reached_cell:
  assumes ws: "well_shaped X y (beta_star s)"
    and pos: "0 < max_iter"
    and nc: "\<forall>u. int u < max_iter \<longrightarrow>
          \<not> f_less ar (step_stat ar X y alpha (estimate ar X y alpha (beta_star s) u)) tol"
  shows "fst (gd_cell ar X y alpha tol max_iter s) =
           (case beta_hat s of None \<Rightarrow> Some (NameError ''beta_hat'') | Some b \<Rightarrow> None)"
    and "stdout (snd (gd_cell ar X y alpha tol max_iter s)) =
           stdout s @
           [notice, [Str ''Went through'', IntV (max_iter - 1), Str ''iterations''],
            [Str ''beta_hat ='']] @
           (case beta_hat s of None \<Rightarrow> [] | Some b \<Rightarrow> [[ArrV b]])"
    and "beta_star (snd (gd_cell ar X y alpha tol max_iter s)) =
           estimate ar X y alpha (beta_star s) (nat max_iter)"
proof -
  have i_eq: "int (nat max_iter - Suc 0) = max_iter - 1" using pos by simp
  note L = loop_exhausted(1) [OF ws nc]
  show "fst (gd_cell ar X y alpha tol max_iter s) =
           (case beta_hat s of None \<Rightarrow> Some (NameError ''beta_hat'') | Some b \<Rightarrow> None)"
    using pos by (simp add: gd_cell_def L final_prints_def print_def Let_def split: option.splits)
  show "stdout (snd (gd_cell ar X y alpha tol max_iter s)) =
           stdout s @
           [notice, [Str ''Went through'', IntV (max_iter - 1), Str ''iterations''],
            [Str ''beta_hat ='']] @
           (case beta_hat s of None \<Rightarrow> [] | Some b \<Rightarrow> [[ArrV b]])"
    using pos i_eq by (simp add: gd_cell_def L final_prints_def print_def Let_def split: option.splits)
  show "beta_star (snd (gd_cell ar X y alpha tol max_iter s)) =
           estimate ar X y alpha (beta_star s) (nat max_iter)"
    using pos by (simp add: gd_cell_def L final_prints_def print_def Let_def split: option.splits)
qed

subsection \<open>Evaluation at concrete inputs\<close>

text \<open>
  The runs below are evaluated in exact arithmetic. At these inputs the doubles take the
  same branches: the statistic of the single iteration is about \<open>0.005\<close>, against a
  tolerance of \<open>1e-9\<close>.
\<close>

lemmas eval_defs = gd_cell_def gd_loop_def gd_loop_runs_def range_py_def loop_body_def gd_update_def
  len_def dot_def matvec_def transpose_m_def row_dot_def sub_bc_def and_then_def scale_def
  conv_stat_def print_def final_prints_def fresh_def exact_def Let_def power2_eq_square

text \<open>
  Claim C1 (the code departs from it). One row, \<open>X = [[1]]\<close>, \<open>y = [1]\<close>, initial guess
  \<open>[0]\<close>, \<open>alpha = 0.05\<close>, \<open>tol = 1e-9\<close>, \<open>max_iter = 1\<close>, in a fresh kernel. The single
  iteration computes \<open>beta_star_new = [0.1]\<close> and does not meet the tolerance; the loop ends
  at the cap and the notice is printed. \<open>beta_hat\<close> is assigned only in the branch that
  breaks, so \<open>print(beta_hat)\<close> raises NameError: the last update stays in \<open>beta_star\<close> and
  is not given back.
\<close>

theorem cap_reached_beta_hat_unbound:
  "gd_cell exact X1 [1] (5 / 100) (1 / 1000000000) 1 (fresh [0]) =
     (Some (NameError ''beta_hat''),
      \<lparr>beta_star = [1 / 10], beta_star_new = Some [1 / 10], beta_hat = None, i = Some 0,
       stdout = [notice, [Str ''Went through'', IntV 0, Str ''iterations''], [Str ''beta_hat ='']]\<rparr>)"
  by (simp add: eval_defs X1_def)

text \<open>
  Claim C4 (the code departs from it). On the same input the loop body runs once and the run
  ends at the cap, but the count printed is the last loop index, \<open>0\<close>, and the cell ends
  with NameError instead of an estimate.
\<close>

theorem one_iteration_reported_as_zero:
  "gd_loop_runs exact X1 [1] (5 / 100) (1 / 1000000000) 1 (fresh [0]) = 1 \<and>
   fst (gd_loop exact X1 [1] (5 / 100) (1 / 1000000000) 1 (fresh [0])) = Normal \<and>
   stdout (snd (gd_cell exact X1 [1] (5 / 100) (1 / 1000000000) 1 (fresh [0]))) ! 1 =
     [Str ''Went through'', IntV 0, Str ''iterations''] \<and>
   fst (gd_cell exact X1 [1] (5 / 100) (1 / 1000000000) 1 (fresh [0])) = Some (NameError ''beta_hat'')"
  by (simp add: eval_defs X1_def)

subsection \<open>What the loop prints\<close>

lemma loop_body_stdout:
  "loop_body ar X y alpha tol max_iter k s = (sig, s') \<Longrightarrow>
   stdout s' = stdout s @ (if sig = Normal \<and> int k + 1 = max_iter then [notice] else [])"
  by (auto simp: loop_body_def Let_def print_def split: sum.splits if_splits)

lemma for_loop_stdout:
  "int m \<le> max_iter \<Longrightarrow>
   for_loop (loop_body ar X y alpha tol max_iter) [0..<m] s = (sig, s') \<Longrightarrow>
   stdout s' = stdout s @ (if sig = Normal \<and> 0 < m \<and> int m = max_iter then [notice] else [])"
proof (induction m arbitrary: sig s')
  case 0
  then show ?case by simp
next
  case (Suc m)
  obtain sg sm where pre: "for_loop (loop_body ar X y alpha tol max_iter) [0..<m] s = (sg, sm)"
    by (cases "for_loop (loop_body ar X y alpha tol max_iter) [0..<m] s")
  have le: "int m \<le> max_iter" and ne: "int m \<noteq> max_iter" using Suc.prems(1) by simp_all
  have out: "stdout sm = stdout s"
    using Suc.IH [OF le pre] ne by simp
  show ?case
  proof (cases sg)
    case Normal
    obtain sg' sm' where body: "loop_body ar X y alpha tol max_iter m sm = (sg', sm')"
      by (cases "loop_body ar X y alpha tol max_iter m sm")
    have res: "(sig, s') = (case sg' of Normal \<Rightarrow> (Normal, sm') | Break \<Rightarrow> (Break, sm') | Raised e \<Rightarrow> (Raised e, sm'))"
      using Suc.prems(2) pre Normal body
      by (simp add: for_loop_append del: for_loop.simps) (simp split: signal.splits)
    then have "sig = sg'" and "s' = sm'" by (auto split: signal.splits)
    with loop_body_stdout [OF body] out show ?thesis
      by (simp add: add.commute)
  next
    case Break
    with Suc.prems(2) pre have "sig = Break" "s' = sm"
      by (simp_all add: for_loop_append del: for_loop.simps)
    with out show ?thesis by simp
  next
    case (Raised e)
    with Suc.prems(2) pre have "sig = Raised e" "s' = sm"
      by (simp_all add: for_loop_append del: for_loop.simps)
    with out show ?thesis by simp
  qed
qed

lemma loop_body_beta_hat:
  "loop_body ar X y alpha tol max_iter k s = (sig, s') \<Longrightarrow>
   beta_hat s' = (if sig = Break then beta_star_new s' else beta_hat s)"
  by (auto simp: loop_body_def Let_def print_def split: sum.splits if_splits)

lemma for_loop_beta_hat:
  "for_loop (loop_body ar X y alpha tol max_iter) ks s = (sig, s') \<Longrightarrow>
   beta_hat s' = (if sig = Break then beta_star_new s' else beta_hat s)"
proof (induction ks arbitrary: s)
  case Nil
  then show ?case by simp
next
  case (Cons k ks)
  obtain sg s1 where body: "loop_body ar X y alpha tol max_iter k s = (sg, s1)"
    by (cases "loop_body ar X y alpha tol max_iter k s")
  show ?case
  proof (cases sg)
    case Normal
    with Cons.prems body have "for_loop (loop_body ar X y alpha tol max_iter) ks s1 = (sig, s')"
      by simp
    from Cons.IH [OF this] loop_body_beta_hat [OF body] Normal show ?thesis by simp
  next
    case Break
    with Cons.prems body have "sig = Break" "s' = s1" by simp_all
    with loop_body_beta_hat [OF body] Break show ?thesis by simp
  next
    case (Raised e)
    with Cons.prems body have "sig = Raised e" "s' = s1" by simp_all
    with loop_body_beta_hat [OF body] Raised show ?thesis by simp
  qed
qed

text \<open>
  Claim C6, as amended. For every input, the only output made inside the loop is the
  notice, printed by the body in the last permitted iteration exactly when the loop ends at
  the cap (\<open>max_iter > 0\<close>) without a break; a run that breaks or raises prints nothing
  inside the loop. The loop works on the notebook's variables: it rebinds \<open>i\<close>,
  \<open>beta_star_new\<close> and \<open>beta_star\<close>, and it binds \<open>beta_hat\<close> (to the last update) exactly when
  it breaks; otherwise \<open>beta_hat\<close> is as it was before the loop.
\<close>

theorem loop_prints_only_the_notice:
  "stdout (snd (gd_loop ar X y alpha tol max_iter s)) =
     stdout s @
     (if fst (gd_loop ar X y alpha tol max_iter s) = Normal \<and> 0 < max_iter then [notice] else []) \<and>
   beta_hat (snd (gd_loop ar X y alpha tol max_iter s)) =
     (if fst (gd_loop ar X y alpha tol max_iter s) = Break
      then beta_star_new (snd (gd_loop ar X y alpha tol max_iter s))
      else beta_hat s)"
proof
  show "stdout (snd (gd_loop ar X y alpha tol max_iter s)) =
     stdout s @
     (if fst (gd_loop ar X y alpha tol max_iter s) = Normal \<and> 0 < max_iter then [notice] else [])"
  proof (cases "0 < max_iter")
    case True
    then have "int (nat max_iter) \<le> max_iter" by simp
    from for_loop_stdout [OF this, where ar = ar and X = X and y = y and alpha = alpha
        and tol = tol and s = s and sig = "fst (gd_loop ar X y alpha tol max_iter s)"
        and s' = "snd (gd_loop ar X y alpha tol max_iter s)"]
    show ?thesis using True by (simp add: gd_loop_def range_py_def)
  next
    case False
    then show ?thesis by (simp add: gd_loop_def range_py_def)
  qed
  show "beta_hat (snd (gd_loop ar X y alpha tol max_iter s)) =
     (if fst (gd_loop ar X y alpha tol max_iter s) = Break
      then beta_star_new (snd (gd_loop ar X y alpha tol max_iter s))
      else beta_hat s)"
    by (rule for_loop_beta_hat [of ar X y alpha tol max_iter "range_py max_iter" s])
      (simp add: gd_loop_def)
qed

text \<open>
  The claim as stated (no output from within the loop body, no global state touched) fails:
  with \<open>max_iter = 1\<close> and a first step above the tolerance, the body prints the notice and
  rebinds the notebook variable \<open>beta_star\<close>.
\<close>

theorem loop_prints_counterexample:
  "stdout (snd (gd_loop exact X1 [1] (5 / 100) (1 / 1000000000) 1 (fresh [0]))) = [notice] \<and>
   stdout (fresh [0]) = [] \<and>
   beta_star (snd (gd_loop exact X1 [1] (5 / 100) (1 / 1000000000) 1 (fresh [0]))) = [1 / 10] \<and>
   beta_star (fresh [0]) = [0]"
  by (simp add: eval_defs X1_def)

subsection \<open>A target vector of the wrong length\<close>

lemma map2_replicate:
  "length u = n \<Longrightarrow> map2 f u (replicate n c) = map (\<lambda>x. f x c) u"
  by (intro nth_equalityI) simp_all

text \<open>
  Claim C8, as amended. The cell checks no shapes itself; what happens to a \<open>y\<close> whose
  length differs from the number \<open>n > 0\<close> of rows of \<open>X\<close> (with \<open>beta_star\<close> of the shape of
  the columns of \<open>X\<close>) is decided by numpy's own rules. A \<open>y\<close> with exactly one entry raises
  nothing: the entry is broadcast against every row, and the update is the one for that
  entry repeated \<open>n\<close> times. Any other length makes the first update raise numpy's
  ValueError, and with \<open>max_iter > 0\<close> the cell ends there, in its first iteration.
\<close>

theorem mismatched_y_follows_numpy_rules:
  assumes wf: "wf_matrix X" and pos: "0 < len X"
    and lb: "length (beta_star s) = ncols X"
    and ne: "length y \<noteq> len X"
  shows "gd_update ar X y alpha (beta_star s) =
           (if length y = 1
            then Inr (gd_next ar X (replicate (len X) (hd y)) alpha (beta_star s))
            else Inl ValueError) \<and>
         (0 < max_iter \<and> length y \<noteq> 1 \<longrightarrow>
            gd_cell ar X y alpha tol max_iter s = (Some ValueError, s\<lparr>i := Some 0\<rparr>))"
proof -
  have d1: "dot ar False X (beta_star s) = Inr (matvec ar False X (beta_star s))"
    using lb by (simp add: dot_def)
  have upd: "gd_update ar X y alpha (beta_star s) =
           (if length y = 1
            then Inr (gd_next ar X (replicate (len X) (hd y)) alpha (beta_star s))
            else Inl ValueError)"
  proof (cases "length y = 1")
    case True
    have sb: "sub_bc ar (matvec ar False X (beta_star s)) y = Inr (map (\<lambda>x. f_sub ar x (hd y)) (matvec ar False X (beta_star s)))"
      using True ne by (simp add: sub_bc_def)
    show ?thesis
      using True pos lb ne
      by (simp add: gd_update_def d1 sb and_then_def dot_def sub_bc_def gd_next_def Let_def
          map2_replicate)
  next
    case False
    show ?thesis
    proof (cases "len X = 1")
      case True
      have sb: "sub_bc ar (matvec ar False X (beta_star s)) y =
          Inr (map (\<lambda>x. f_sub ar (hd (matvec ar False X (beta_star s))) x) y)"
        using True False ne by (simp add: sub_bc_def)
      show ?thesis
        using True False ne
        by (simp add: gd_update_def d1 sb and_then_def dot_def)
    next
      case F2: False
      have sb: "sub_bc ar (matvec ar False X (beta_star s)) y = Inl ValueError"
        using F2 False ne by (simp add: sub_bc_def)
      show ?thesis
        using False pos by (simp add: gd_update_def d1 sb and_then_def)
    qed
  qed
  have cell: "gd_cell ar X y alpha tol max_iter s = (Some ValueError, s\<lparr>i := Some 0\<rparr>)"
    if "0 < max_iter" "length y \<noteq> 1"
  proof -
    have "range_py max_iter = 0 # [Suc 0..<nat max_iter]"
      using that(1) by (simp add: range_py_def upt_conv_Cons)
    moreover have "loop_body ar X y alpha tol max_iter 0 s = (Raised ValueError, s\<lparr>i := Some 0\<rparr>)"
      using that(2) by (simp add: loop_body_def upd)
    ultimately show ?thesis
      by (simp add: gd_cell_def gd_loop_def)
  qed
  show ?thesis using upd cell by blast
qed

theorem mismatched_y_follows_numpy_rules_witness:
  "gd_update exact X2 [3] (1 / 10) (beta_star (fresh [0])) =
     Inr (gd_next exact X2 (replicate (len X2) (hd [3])) (1 / 10) (beta_star (fresh [0]))) \<and>
   gd_cell exact X2 [3, 4, 5] (1 / 10) (1 / 100) 7 (fresh [0]) = (Some ValueError, (fresh [0])\<lparr>i := Some 0\<rparr>)"
proof -
  have wf: "wf_matrix X2" by (simp add: wf_matrix_def X2_def)
  have pos: "0 < len X2" by (simp add: len_def X2_def)
  have lb: "length (beta_star (fresh [0])) = ncols X2" by (simp add: fresh_def X2_def)
  have ne1: "length [3 :: real] \<noteq> len X2" by (simp add: len_def X2_def)
  have ne3: "length [3, 4, 5 :: real] \<noteq> len X2" by (simp add: len_def X2_def)
  from mismatched_y_follows_numpy_rules [OF wf pos lb ne1, where ar = exact and alpha = "1 / 10"
      and max_iter = 7 and tol = "1 / 100"]
    mismatched_y_follows_numpy_rules [OF wf pos lb ne3, where ar = exact and alpha = "1 / 10"
      and max_iter = 7 and tol = "1 / 100"]
  show ?thesis by simp
qed

text \<open>
  The claim as stated (every mismatched \<open>y\<close> raises) fails for a \<open>y\<close> of length one
  against two rows: the run converges and prints its estimate.
\<close>

theorem mismatched_y_counterexample:
  "length [3 :: real] \<noteq> len X2 \<and>
   gd_cell exact X2 [3] (5 / 100) (1 / 1000000000) 3 (fresh [3]) =
     (None,
      \<lparr>beta_star = [3], beta_star_new = Some [3], beta_hat = Some [3], i = Some 0,
       stdout = [[Str ''Went through'', IntV 0, Str ''iterations''], [Str ''beta_hat =''], [ArrV [3]]]\<rparr>)"
  by (simp add: eval_defs X2_def upt_conv_Cons)


subsection \<open>The learning rate\<close>






end
